theory Spec2Isabelle
  imports Main
begin

section \<open>Python values\<close>

text \<open>
  Exceptions of the Python program are values: every call that can raise returns
  \<open>py_error + 'a\<close>, with \<open>Inl\<close> for the exception that ends \<open>main\<close>.
\<close>

datatype py_error = IndexError | AttributeError | ValueError | FileNotFoundError | EngineError

section \<open>The chess library as seen from main.py\<close>

text \<open>
  \<open>main.py\<close> imports the third-party package \<open>chess\<close>; its code is not part of the
  repository. The program is therefore modelled over an arbitrary implementation of the
  calls it makes, collected in the record \<open>'b rules\<close> (\<open>'b\<close> is the type of
  \<open>chess.Board\<close> objects). A call that mutates the board returns the new board.
\<close>

datatype piece_type = PAWN | KNIGHT | BISHOP | ROOK | QUEEN | KING

text \<open>\<open>chess.WHITE\<close> is \<open>True\<close>, \<open>chess.BLACK\<close> is \<open>False\<close>.\<close>

datatype piece = Piece (ptype: piece_type) (color: bool)

text \<open>\<open>chess.Move(from_square, to_square, promotion=None)\<close>.\<close>

datatype move = Move (from_square: int) (to_square: int) (promotion: "piece_type option")

text \<open>\<open>chess.engine.Limit(depth=d)\<close> and \<open>chess.engine.Limit(time=0.1)\<close>.\<close>

datatype limit = Limit_depth nat | Limit_time_tenths nat

record 'b rules =
  new_board :: 'b
    \<comment> \<open>\<open>chess.Board()\<close>\<close>
  piece_at :: "'b \<Rightarrow> int \<Rightarrow> py_error + piece option"
    \<comment> \<open>\<open>board.piece_at(square)\<close>\<close>
  turn :: "'b \<Rightarrow> bool"
    \<comment> \<open>\<open>board.turn\<close>, the side to move\<close>
  legal_moves :: "'b \<Rightarrow> move list"
    \<comment> \<open>\<open>list(board.legal_moves)\<close>\<close>
  contains_legal :: "'b \<Rightarrow> move \<Rightarrow> py_error + bool"
    \<comment> \<open>\<open>move in board.legal_moves\<close>\<close>
  push :: "'b \<Rightarrow> move option \<Rightarrow> py_error + 'b"
    \<comment> \<open>\<open>board.push(move)\<close>; the argument may be Python's \<open>None\<close>\<close>
  pop :: "'b \<Rightarrow> py_error + 'b"
    \<comment> \<open>\<open>board.pop()\<close>; main.py drops the returned move\<close>
  peek :: "'b \<Rightarrow> py_error + move"
    \<comment> \<open>\<open>board.peek()\<close>\<close>
  move_stack :: "'b \<Rightarrow> move list"
    \<comment> \<open>\<open>board.move_stack\<close>\<close>
  is_game_over :: "'b \<Rightarrow> bool"
  is_checkmate :: "'b \<Rightarrow> bool"
  is_stalemate :: "'b \<Rightarrow> bool"
  is_check :: "'b \<Rightarrow> bool"
  fen :: "'b \<Rightarrow> string"
    \<comment> \<open>\<open>board.fen()\<close>\<close>
  from_fen :: "string \<Rightarrow> py_error + 'b"
    \<comment> \<open>\<open>chess.Board(fen)\<close>\<close>
  uci :: "move \<Rightarrow> string"
    \<comment> \<open>\<open>move.uci()\<close>\<close>

section \<open>Constants of main.py\<close>

definition BOARD_SIZE :: int where
  "BOARD_SIZE = 640"

definition SQUARE_SIZE :: int where
  "SQUARE_SIZE = BOARD_SIZE div 8"

definition TEXT_BOX_HEIGHT :: int where
  "TEXT_BOX_HEIGHT = 50"

text \<open>
  The window made by \<open>pygame.display.set_mode((BOARD_SIZE, BOARD_SIZE + TEXT_BOX_HEIGHT))\<close>:
  the pixels a mouse click can report.
\<close>

definition in_window :: "int \<Rightarrow> int \<Rightarrow> bool" where
  "in_window x y = (0 \<le> x \<and> x < BOARD_SIZE \<and> 0 \<le> y \<and> y < BOARD_SIZE + TEXT_BOX_HEIGHT)"

section \<open>ChessAI\<close>

text \<open>
  \<open>random.choice(seq)\<close> raises \<open>IndexError\<close> on an empty sequence and otherwise returns
  \<open>seq[i]\<close> for the index \<open>i\<close> that the generator draws below \<open>len(seq)\<close>. The draw
  is the parameter \<open>rnd\<close>: \<open>rnd n\<close> is the generator's answer below \<open>n\<close>.
\<close>

definition random_choice :: "(nat \<Rightarrow> nat) \<Rightarrow> 'a list \<Rightarrow> py_error + 'a" where
  "random_choice rnd seq =
     (if seq = [] then Inl IndexError
      else let i = rnd (length seq) in
        if i < length seq then Inr (seq ! i) else Inl IndexError)"

record 'b ChessAI =
  level :: string
  engine_play :: "'b \<Rightarrow> limit \<Rightarrow> py_error + move option"
    \<comment> \<open>\<open>self.engine.play(board, limit).move\<close>, the answer of the Stockfish process\<close>

definition ChessAI_random_move :: "'b rules \<Rightarrow> (nat \<Rightarrow> nat) \<Rightarrow> 'b \<Rightarrow> py_error + move" where
  "ChessAI_random_move L rnd b = random_choice rnd (legal_moves L b)"

definition stockfish_move :: "'b ChessAI \<Rightarrow> 'b \<Rightarrow> nat \<Rightarrow> py_error + move option" where
  "stockfish_move ai b depth = engine_play ai b (Limit_depth depth)"

definition get_hint :: "'b ChessAI \<Rightarrow> 'b \<Rightarrow> py_error + move option" where
  "get_hint ai b = engine_play ai b (Limit_time_tenths 1)"

text \<open>A Python function that falls off its end returns \<open>None\<close>.\<close>

definition make_move :: "'b rules \<Rightarrow> 'b ChessAI \<Rightarrow> (nat \<Rightarrow> nat) \<Rightarrow> 'b \<Rightarrow> py_error + move option" where
  "make_move L ai rnd b =
     (if level ai = ''easy'' then map_sum id Some (ChessAI_random_move L rnd b)
      else if level ai = ''medium'' then stockfish_move ai b 10
      else if level ai = ''hard'' then stockfish_move ai b 20
      else Inr None)"

section \<open>Saving and loading\<close>

text \<open>The files of the working directory: a map from file names to contents.\<close>

type_synonym files = "string \<rightharpoonup> string"

definition save_game :: "'b rules \<Rightarrow> 'b \<Rightarrow> files \<Rightarrow> files" where
  "save_game L b fs = fs(''saved_game.txt'' \<mapsto> fen L b)"

definition load_game :: "'b rules \<Rightarrow> files \<Rightarrow> py_error + 'b" where
  "load_game L fs =
     (case fs ''saved_game.txt'' of
        None \<Rightarrow> Inl FileNotFoundError
      | Some text \<Rightarrow> from_fen L text)"

section \<open>The loop of main\<close>

text \<open>
  The local variables of \<open>main\<close>, and \<open>text_box\<close>: the message that the last call of
  \<open>display_info\<close> drew into the text box of the screen surface (nothing before the
  first call).
\<close>

record 'b game =
  board :: 'b
  running :: bool
  selected_square :: "int option"
  player_turn :: bool
  last_move :: "string option"
  show_hint :: bool
  text_box :: "string option"

datatype key = K_h | K_u | K_other

text \<open>
  An event of \<open>pygame.event.get()\<close>. \<open>MOUSEBUTTONDOWN x y\<close> carries what
  \<open>pygame.mouse.get_pos()\<close> returns when the event is handled.
\<close>

datatype event = QUIT | MOUSEBUTTONDOWN int int | KEYDOWN key | OTHER_EVENT

definition display_info :: "string \<Rightarrow> 'b game \<Rightarrow> 'b game" where
  "display_info msg s = s\<lparr>text_box := Some msg\<rparr>"

definition initial_game :: "'b rules \<Rightarrow> 'b game" where
  "initial_game L =
     \<lparr>board = new_board L, running = True, selected_square = None, player_turn = True,
      last_move = None, show_hint = False, text_box = None\<rparr>"

text \<open>Lines 127 to 129: the square of a click.\<close>

definition click_square :: "int \<Rightarrow> int \<Rightarrow> int" where
  "click_square x y =
     (let col = x div SQUARE_SIZE; row = y div SQUARE_SIZE in row * 8 + col)"

text \<open>Lines 136 to 138, and 155 to 157 with \<open>pt = True\<close>: push, then read the move back.\<close>

definition push_and_record :: "'b rules \<Rightarrow> move option \<Rightarrow> bool \<Rightarrow> 'b game \<Rightarrow> py_error + 'b game" where
  "push_and_record L mv pt s =
     (case push L (board s) mv of
        Inl e \<Rightarrow> Inl e
      | Inr b' \<Rightarrow>
          (case peek L b' of
             Inl e \<Rightarrow> Inl e
           | Inr pm \<Rightarrow> Inr (s\<lparr>board := b', last_move := Some (uci L pm), player_turn := pt\<rparr>)))"

text \<open>Lines 133 to 141: the second click, with \<open>sel\<close> selected.\<close>

definition attempt_move :: "'b rules \<Rightarrow> int \<Rightarrow> int \<Rightarrow> 'b game \<Rightarrow> py_error + 'b game" where
  "attempt_move L sel square s =
     (let m = Move sel square None in
      case contains_legal L (board s) m of
        Inl e \<Rightarrow> Inl e
      | Inr True \<Rightarrow>
          (case push_and_record L (Some m) False s of
             Inl e \<Rightarrow> Inl e
           | Inr s' \<Rightarrow> Inr (s'\<lparr>selected_square := None\<rparr>))
      | Inr False \<Rightarrow>
          Inr ((display_info ''Invalid move. Try again.'' s)\<lparr>selected_square := None\<rparr>))"

text \<open>Lines 130 to 141.\<close>

definition select_or_move :: "'b rules \<Rightarrow> int \<Rightarrow> 'b game \<Rightarrow> py_error + 'b game" where
  "select_or_move L square s =
     (case selected_square s of
        None \<Rightarrow>
          (case piece_at L (board s) square of
             Inl e \<Rightarrow> Inl e
           | Inr None \<Rightarrow> Inr s
           | Inr (Some p) \<Rightarrow> Inr (s\<lparr>selected_square := Some square\<rparr>))
      | Some sel \<Rightarrow> attempt_move L sel square s)"

text \<open>Lines 148 to 150.\<close>

definition request_undo :: "'b rules \<Rightarrow> 'b game \<Rightarrow> py_error + 'b game" where
  "request_undo L s =
     (if length (move_stack L (board s)) > 0
      then (case pop L (board s) of Inl e \<Rightarrow> Inl e | Inr b' \<Rightarrow> Inr (s\<lparr>board := b'\<rparr>))
      else Inr s)"

text \<open>Lines 120 to 150: one event.\<close>

fun handle_event :: "'b rules \<Rightarrow> event \<Rightarrow> 'b game \<Rightarrow> py_error + 'b game" where
  "handle_event L QUIT s = Inr (s\<lparr>running := False\<rparr>)"
| "handle_event L (MOUSEBUTTONDOWN x y) s =
     (if player_turn s then select_or_move L (click_square x y) s else Inr s)"
| "handle_event L (KEYDOWN K_h) s = Inr (s\<lparr>show_hint := True\<rparr>)"
| "handle_event L (KEYDOWN K_u) s = request_undo L s"
| "handle_event L (KEYDOWN K_other) s = Inr s"
| "handle_event L OTHER_EVENT s = Inr s"

text \<open>Line 119: the events of one frame, in order; an exception ends the loop.\<close>

fun handle_events :: "'b rules \<Rightarrow> event list \<Rightarrow> 'b game \<Rightarrow> py_error + 'b game" where
  "handle_events L [] s = Inr s"
| "handle_events L (ev # evs) s =
     (case handle_event L ev s of Inl e \<Rightarrow> Inl e | Inr s' \<Rightarrow> handle_events L evs s')"

text \<open>Lines 153 to 157.\<close>

definition advance_opponent_turn ::
  "'b rules \<Rightarrow> 'b ChessAI \<Rightarrow> (nat \<Rightarrow> nat) \<Rightarrow> 'b game \<Rightarrow> py_error + 'b game" where
  "advance_opponent_turn L ai rnd s =
     (if \<not> player_turn s \<and> \<not> is_game_over L (board s)
      then (case make_move L ai rnd (board s) of
              Inl e \<Rightarrow> Inl e
            | Inr ai_move \<Rightarrow> push_and_record L ai_move True s)
      else Inr s)"

text \<open>Lines 160 to 170. \<open>f"Last move: {last_move}"\<close> prints \<open>None\<close> as \<open>None\<close>.\<close>

definition current_status :: "'b rules \<Rightarrow> 'b game \<Rightarrow> 'b game" where
  "current_status L s =
     (if is_checkmate L (board s) then (display_info ''Checkmate!'' s)\<lparr>running := False\<rparr>
      else if is_stalemate L (board s) then (display_info ''Stalemate!'' s)\<lparr>running := False\<rparr>
      else if is_check L (board s) then display_info ''Check!'' s
      else display_info (''Last move: '' @ (case last_move s of None \<Rightarrow> ''None'' | Some t \<Rightarrow> t)) s)"

text \<open>
  Lines 176 to 180. \<open>hint_move.uci()\<close> on \<open>None\<close> raises \<open>AttributeError\<close>.
\<close>

definition resolve_hint :: "'b rules \<Rightarrow> 'b ChessAI \<Rightarrow> 'b game \<Rightarrow> py_error + 'b game" where
  "resolve_hint L ai s =
     (if show_hint s
      then (case get_hint ai (board s) of
              Inl e \<Rightarrow> Inl e
            | Inr None \<Rightarrow> Inl AttributeError
            | Inr (Some hint_move) \<Rightarrow>
                Inr ((display_info (''Hint: '' @ uci L hint_move) s)\<lparr>show_hint := False\<rparr>))
      else Inr s)"

text \<open>Lines 119 to 182: one pass through the body of \<open>while running\<close>.\<close>

definition frame ::
  "'b rules \<Rightarrow> 'b ChessAI \<Rightarrow> (nat \<Rightarrow> nat) \<Rightarrow> event list \<Rightarrow> 'b game \<Rightarrow> py_error + 'b game" where
  "frame L ai rnd evs s =
     (case handle_events L evs s of
        Inl e \<Rightarrow> Inl e
      | Inr s1 \<Rightarrow>
          (case advance_opponent_turn L ai rnd s1 of
             Inl e \<Rightarrow> Inl e
           | Inr s2 \<Rightarrow> resolve_hint L ai (current_status L s2)))"

text \<open>
  The status that lines 160 to 170 derive from the board; everything that is neither
  mate nor check is \<open>Ongoing\<close>.
\<close>

datatype game_status = Ongoing | Check | Checkmate | Stalemate

definition status :: "'b rules \<Rightarrow> 'b \<Rightarrow> game_status" where
  "status L b =
     (if is_checkmate L b then Checkmate
      else if is_stalemate L b then Stalemate
      else if is_check L b then Check
      else Ongoing)"

section \<open>A reference implementation of the library interface\<close>

text \<open>
  Theorems about \<open>main.py\<close> hold for every implementation \<open>L\<close> of the library, under
  the properties of the library they name as hypotheses. To evaluate the program on
  concrete games, \<open>ref_rules\<close> implements the interface: squares are numbered as in the
  library (\<open>a1 = 0\<close>, \<open>h1 = 7\<close>, \<open>a8 = 56\<close>, \<open>h8 = 63\<close>), pieces move and give check
  as in chess, \<open>push\<close> saves the position that \<open>pop\<close> restores. Castling, en passant
  and draws other than stalemate are left out.
\<close>

record ref_board =
  squares :: "piece option list"
  white_to_move :: bool
  played :: "move list"
  saved :: "(piece option list \<times> bool) list"

definition sq_of :: "int \<Rightarrow> int \<Rightarrow> int" where
  "sq_of f r = r * 8 + f"

definition inside :: "int \<Rightarrow> int \<Rightarrow> bool" where
  "inside f r = (0 \<le> f \<and> f < 8 \<and> 0 \<le> r \<and> r < 8)"

definition look :: "piece option list \<Rightarrow> int \<Rightarrow> int \<Rightarrow> piece option" where
  "look P f r = (if inside f r then P ! nat (sq_of f r) else None)"

text \<open>The squares a piece of colour \<open>c\<close> reaches from file \<open>f\<close>, rank \<open>r\<close> in direction \<open>d\<close>, at most \<open>n\<close> steps.\<close>

fun slide :: "nat \<Rightarrow> piece option list \<Rightarrow> bool \<Rightarrow> int \<Rightarrow> int \<Rightarrow> int \<times> int \<Rightarrow> int list" where
  "slide 0 P c f r d = []"
| "slide (Suc n) P c f r d =
     (let f' = f + fst d; r' = r + snd d in
      if \<not> inside f' r' then []
      else case look P f' r' of
             None \<Rightarrow> sq_of f' r' # slide n P c f' r' d
           | Some q \<Rightarrow> if color q = c then [] else [sq_of f' r'])"

definition hop :: "piece option list \<Rightarrow> bool \<Rightarrow> int \<Rightarrow> int \<Rightarrow> int \<times> int \<Rightarrow> int list" where
  "hop P c f r d = slide 1 P c f r d"

definition straight :: "(int \<times> int) list" where
  "straight = [(1, 0), (-1, 0), (0, 1), (0, -1)]"

definition diagonal :: "(int \<times> int) list" where
  "diagonal = [(1, 1), (1, -1), (-1, 1), (-1, -1)]"

definition knight_jumps :: "(int \<times> int) list" where
  "knight_jumps = [(1, 2), (2, 1), (2, -1), (1, -2), (-1, -2), (-2, -1), (-2, 1), (-1, 2)]"

definition pawn_targets :: "piece option list \<Rightarrow> bool \<Rightarrow> int \<Rightarrow> int \<Rightarrow> int list" where
  "pawn_targets P c f r =
     (let d = (if c then 1 else -1); home = (if c then 1 else 6) in
      (if inside f (r + d) \<and> look P f (r + d) = None
       then sq_of f (r + d) #
              (if r = home \<and> look P f (r + 2 * d) = None then [sq_of f (r + 2 * d)] else [])
       else []) @
      concat (map (\<lambda>df. case look P (f + df) (r + d) of
                           None \<Rightarrow> []
                         | Some q \<Rightarrow> if color q = c then [] else [sq_of (f + df) (r + d)])
                  [-1, 1]))"

definition targets :: "piece option list \<Rightarrow> int \<Rightarrow> piece \<Rightarrow> int list" where
  "targets P s p =
     (let f = s mod 8; r = s div 8; c = color p in
      case ptype p of
        PAWN \<Rightarrow> pawn_targets P c f r
      | KNIGHT \<Rightarrow> concat (map (hop P c f r) knight_jumps)
      | BISHOP \<Rightarrow> concat (map (slide 7 P c f r) diagonal)
      | ROOK \<Rightarrow> concat (map (slide 7 P c f r) straight)
      | QUEEN \<Rightarrow> concat (map (slide 7 P c f r) (straight @ diagonal))
      | KING \<Rightarrow> concat (map (hop P c f r) (straight @ diagonal)))"

definition pseudo_moves :: "piece option list \<Rightarrow> bool \<Rightarrow> (int \<times> int) list" where
  "pseudo_moves P c =
     concat (map (\<lambda>s. case P ! s of
                         None \<Rightarrow> []
                       | Some p \<Rightarrow>
                           if color p = c then map (Pair (int s)) (targets P (int s) p) else [])
                 [0..<64])"

definition in_check :: "piece option list \<Rightarrow> bool \<Rightarrow> bool" where
  "in_check P c =
     list_ex (\<lambda>st. P ! nat (snd st) = Some (Piece KING c)) (pseudo_moves P (\<not> c))"

definition make :: "piece option list \<Rightarrow> move \<Rightarrow> piece option list" where
  "make P m =
     (let moved = (case promotion m of
                     None \<Rightarrow> P ! nat (from_square m)
                   | Some t \<Rightarrow> map_option (\<lambda>p. Piece t (color p)) (P ! nat (from_square m)))
      in P[nat (to_square m) := moved, nat (from_square m) := None])"

definition candidates :: "piece option list \<Rightarrow> int \<times> int \<Rightarrow> move list" where
  "candidates P st =
     (if map_option ptype (P ! nat (fst st)) = Some PAWN \<and> (snd st div 8 = 7 \<or> snd st div 8 = 0)
      then map (\<lambda>t. Move (fst st) (snd st) (Some t)) [QUEEN, ROOK, BISHOP, KNIGHT]
      else [Move (fst st) (snd st) None])"

definition pseudo_legal :: "piece option list \<Rightarrow> bool \<Rightarrow> move list" where
  "pseudo_legal P c = concat (map (candidates P) (pseudo_moves P c))"

definition gen_legal :: "piece option list \<Rightarrow> bool \<Rightarrow> move list" where
  "gen_legal P c = filter (\<lambda>m. \<not> in_check (make P m) c) (pseudo_legal P c)"

text \<open>Is there a legal move: the search stops at the first one.\<close>

definition has_legal :: "piece option list \<Rightarrow> bool \<Rightarrow> bool" where
  "has_legal P c = list_ex (\<lambda>m. \<not> in_check (make P m) c) (pseudo_legal P c)"

definition is_legal :: "piece option list \<Rightarrow> bool \<Rightarrow> move \<Rightarrow> bool" where
  "is_legal P c m = (List.member (pseudo_legal P c) m \<and> \<not> in_check (make P m) c)"

definition back_rank :: "bool \<Rightarrow> piece option list" where
  "back_rank c =
     map (\<lambda>t. Some (Piece t c)) [ROOK, KNIGHT, BISHOP, QUEEN, KING, BISHOP, KNIGHT, ROOK]"

definition start_squares :: "piece option list" where
  "start_squares =
     back_rank True @ replicate 8 (Some (Piece PAWN True)) @ replicate 32 None @
     replicate 8 (Some (Piece PAWN False)) @ back_rank False"

definition ref_new_board :: ref_board where
  "ref_new_board = \<lparr>squares = start_squares, white_to_move = True, played = [], saved = []\<rparr>"

text \<open>A Python list of length 64 accepts the indices from \<open>-64\<close> to \<open>63\<close>.\<close>

definition list_index_ok :: "int \<Rightarrow> bool" where
  "list_index_ok s = (- 64 \<le> s \<and> s < 64)"

definition ref_piece_at :: "ref_board \<Rightarrow> int \<Rightarrow> py_error + piece option" where
  "ref_piece_at b s =
     (if \<not> list_index_ok s then Inl IndexError
      else Inr (squares b ! nat (if s < 0 then 64 + s else s)))"

definition ref_legal_moves :: "ref_board \<Rightarrow> move list" where
  "ref_legal_moves b = gen_legal (squares b) (white_to_move b)"

definition ref_contains_legal :: "ref_board \<Rightarrow> move \<Rightarrow> py_error + bool" where
  "ref_contains_legal b m =
     (if \<not> list_index_ok (from_square m) then Inl IndexError
      else if ref_piece_at b (from_square m) = Inr None then Inr False
      else if \<not> list_index_ok (to_square m) then Inl IndexError
      else Inr (is_legal (squares b) (white_to_move b) m))"

fun ref_push :: "ref_board \<Rightarrow> move option \<Rightarrow> py_error + ref_board" where
  "ref_push b None = Inl AttributeError"
| "ref_push b (Some m) =
     Inr \<lparr>squares = make (squares b) m, white_to_move = (\<not> white_to_move b),
          played = played b @ [m], saved = saved b @ [(squares b, white_to_move b)]\<rparr>"

definition ref_pop :: "ref_board \<Rightarrow> py_error + ref_board" where
  "ref_pop b =
     (if played b = [] \<or> saved b = [] then Inl IndexError
      else Inr \<lparr>squares = fst (last (saved b)), white_to_move = snd (last (saved b)),
                played = butlast (played b), saved = butlast (saved b)\<rparr>)"

definition ref_peek :: "ref_board \<Rightarrow> py_error + move" where
  "ref_peek b = (if played b = [] then Inl IndexError else Inr (last (played b)))"

definition ref_is_check :: "ref_board \<Rightarrow> bool" where
  "ref_is_check b = in_check (squares b) (white_to_move b)"

definition ref_is_checkmate :: "ref_board \<Rightarrow> bool" where
  "ref_is_checkmate b = (ref_is_check b \<and> \<not> has_legal (squares b) (white_to_move b))"

definition ref_is_stalemate :: "ref_board \<Rightarrow> bool" where
  "ref_is_stalemate b = (\<not> ref_is_check b \<and> \<not> has_legal (squares b) (white_to_move b))"

definition ref_is_game_over :: "ref_board \<Rightarrow> bool" where
  "ref_is_game_over b = (\<not> has_legal (squares b) (white_to_move b))"

definition symbols :: "(char \<times> piece) list" where
  "symbols =
     [(CHR ''P'', Piece PAWN True), (CHR ''N'', Piece KNIGHT True), (CHR ''B'', Piece BISHOP True),
      (CHR ''R'', Piece ROOK True), (CHR ''Q'', Piece QUEEN True), (CHR ''K'', Piece KING True),
      (CHR ''p'', Piece PAWN False), (CHR ''n'', Piece KNIGHT False), (CHR ''b'', Piece BISHOP False),
      (CHR ''r'', Piece ROOK False), (CHR ''q'', Piece QUEEN False), (CHR ''k'', Piece KING False)]"

definition symbol :: "piece \<Rightarrow> char" where
  "symbol p = (case map_of (map prod.swap symbols) p of None \<Rightarrow> CHR ''?'' | Some c \<Rightarrow> c)"

definition digit :: "nat \<Rightarrow> string" where
  "digit n = (if n = 0 then [] else [char_of (48 + n)])"

fun fen_row :: "nat \<Rightarrow> piece option list \<Rightarrow> string" where
  "fen_row n [] = digit n"
| "fen_row n (None # xs) = fen_row (Suc n) xs"
| "fen_row n (Some p # xs) = digit n @ symbol p # fen_row 0 xs"

definition board_fen :: "piece option list \<Rightarrow> string" where
  "board_fen P =
     concat (map (\<lambda>r. fen_row 0 (take 8 (drop (8 * r) P)) @ (if r = 0 then [] else ''/''))
                 [7, 6, 5, 4, 3, 2, 1, 0])"

definition ref_fen :: "ref_board \<Rightarrow> string" where
  "ref_fen b = board_fen (squares b) @ (if white_to_move b then '' w'' else '' b'') @ '' - - 0 1''"

fun split_words :: "string \<Rightarrow> string \<Rightarrow> string list" where
  "split_words acc [] = [acc]"
| "split_words acc (c # cs) =
     (if c = CHR '' '' then acc # split_words [] cs else split_words (acc @ [c]) cs)"

fun parse_board ::
  "string \<Rightarrow> piece option list list \<Rightarrow> piece option list \<Rightarrow> piece option list list option" where
  "parse_board [] rows row = Some (row # rows)"
| "parse_board (c # cs) rows row =
     (if c = CHR ''/'' then parse_board cs (row # rows) []
      else if List.member ''12345678'' c
        then parse_board cs rows (row @ replicate (of_char c - 48) None)
      else case map_of symbols c of
             None \<Rightarrow> None
           | Some p \<Rightarrow> parse_board cs rows (row @ [Some p]))"

definition ref_from_fen :: "string \<Rightarrow> py_error + ref_board" where
  "ref_from_fen text =
     (case split_words [] text of
        [pl, sd, ca, ep, hm, fm] \<Rightarrow>
          (case parse_board pl [] [] of
             None \<Rightarrow> Inl ValueError
           | Some rows \<Rightarrow>
               if length rows = 8 \<and> list_all (\<lambda>r. length r = 8) rows \<and> (sd = ''w'' \<or> sd = ''b'')
               then Inr \<lparr>squares = concat rows, white_to_move = (sd = ''w''),
                         played = [], saved = []\<rparr>
               else Inl ValueError)
      | _ \<Rightarrow> Inl ValueError)"

definition square_name :: "int \<Rightarrow> string" where
  "square_name s = [char_of (97 + s mod 8), char_of (49 + s div 8)]"

definition ref_uci :: "move \<Rightarrow> string" where
  "ref_uci m =
     (if from_square m = 0 \<and> to_square m = 0 \<and> promotion m = None then ''0000''
      else square_name (from_square m) @ square_name (to_square m) @
           (case promotion m of None \<Rightarrow> [] | Some t \<Rightarrow> [symbol (Piece t False)]))"

definition ref_rules :: "ref_board rules" where
  "ref_rules =
     \<lparr>new_board = ref_new_board, piece_at = ref_piece_at, turn = white_to_move,
      legal_moves = ref_legal_moves, contains_legal = ref_contains_legal,
      push = ref_push, pop = ref_pop, peek = ref_peek, move_stack = played,
      is_game_over = ref_is_game_over, is_checkmate = ref_is_checkmate,
      is_stalemate = ref_is_stalemate, is_check = ref_is_check,
      fen = ref_fen, from_fen = ref_from_fen, uci = ref_uci\<rparr>"

text \<open>
  An analysis engine that answers from a script: its \<open>n\<close>-th answer is the \<open>n\<close>-th move
  of the script, and no move once the script is used up.
\<close>

definition scripted_engine :: "move list \<Rightarrow> ref_board \<Rightarrow> limit \<Rightarrow> py_error + move option" where
  "scripted_engine script b lim =
     (let n = length (played b) div 2 in
      Inr (if n < length script then Some (script ! n) else None))"

definition scripted_ai :: "string \<Rightarrow> move list \<Rightarrow> ref_board ChessAI" where
  "scripted_ai lvl script = \<lparr>level = lvl, engine_play = scripted_engine script\<rparr>"

text \<open>The board after the moves \<open>ms\<close>, pushed on the opening position.\<close>

fun pushed :: "ref_board \<Rightarrow> move list \<Rightarrow> ref_board" where
  "pushed b [] = b"
| "pushed b (m # ms) = (case ref_push b (Some m) of Inl e \<Rightarrow> b | Inr b' \<Rightarrow> pushed b' ms)"

definition after :: "move list \<Rightarrow> ref_board" where
  "after ms = pushed ref_new_board ms"

definition e2e4 :: move where "e2e4 = Move 12 28 None"
definition f7f5 :: move where "f7f5 = Move 53 37 None"
definition d1h5 :: move where "d1h5 = Move 3 39 None"
definition g7g6 :: move where "g7g6 = Move 54 46 None"
definition f2f3 :: move where "f2f3 = Move 13 21 None"
definition e7e5 :: move where "e7e5 = Move 52 36 None"
definition g2g4 :: move where "g2g4 = Move 14 30 None"
definition d8h4 :: move where "d8h4 = Move 59 31 None"

text \<open>A generator that always draws 0.\<close>

definition draw_first :: "nat \<Rightarrow> nat" where
  "draw_first n = 0"

text \<open>The game between two frames: no selection, no pending hint.\<close>

definition between_frames ::
  "ref_board \<Rightarrow> bool \<Rightarrow> bool \<Rightarrow> string \<Rightarrow> string \<Rightarrow> ref_board game" where
  "between_frames b run pt lm msg =
     \<lparr>board = b, running = run, selected_square = None, player_turn = pt,
      last_move = Some lm, show_hint = False, text_box = Some msg\<rparr>"

section \<open>Properties of the library that the theorems assume\<close>

text \<open>
  The membership test answers, and agrees with the list of legal moves.
\<close>

definition membership_contract :: "'b rules \<Rightarrow> 'b \<Rightarrow> move \<Rightarrow> bool" where
  "membership_contract L b m = (contains_legal L b m = Inr (m \<in> set (legal_moves L b)))"

text \<open>
  Pushing \<open>m\<close> succeeds, gives another board, with \<open>m\<close> on top of the move stack.
\<close>

definition push_contract :: "'b rules \<Rightarrow> 'b \<Rightarrow> move \<Rightarrow> bool" where
  "push_contract L b m =
     (case push L b (Some m) of
        Inl e \<Rightarrow> False
      | Inr b' \<Rightarrow> b' \<noteq> b \<and> peek L b' = Inr m \<and> move_stack L b' = move_stack L b @ [m])"

text \<open>Popping after pushing \<open>m\<close> succeeds and gives a board with the record of \<open>b\<close>.\<close>

definition pop_contract :: "'b rules \<Rightarrow> 'b \<Rightarrow> move \<Rightarrow> bool" where
  "pop_contract L b m =
     (case push L b (Some m) of
        Inl e \<Rightarrow> False
      | Inr b' \<Rightarrow> (case pop L b' of Inl e \<Rightarrow> False | Inr b'' \<Rightarrow> fen L b'' = fen L b))"

text \<open>
  On a board that is checkmate or stalemate the game is over and the membership test
  accepts no move.
\<close>

definition terminal_contract :: "'b rules \<Rightarrow> 'b \<Rightarrow> bool" where
  "terminal_contract L b =
     (is_checkmate L b \<or> is_stalemate L b \<longrightarrow>
        is_game_over L b \<and> (\<forall>m. contains_legal L b m \<noteq> Inr True))"

text \<open>Reading the record of \<open>b\<close> succeeds and gives a board with the same record.\<close>

definition fen_contract :: "'b rules \<Rightarrow> 'b \<Rightarrow> bool" where
  "fen_contract L b =
     (case from_fen L (fen L b) of Inl e \<Rightarrow> False | Inr b' \<Rightarrow> fen L b' = fen L b)"

section \<open>Sequences of controller calls\<close>




section \<open>Squares computed from clicks\<close>

lemma click_square_eq: "click_square x y = (y div 80) * 8 + x div 80"
  by (simp add: click_square_def SQUARE_SIZE_def BOARD_SIZE_def)

text \<open>A click on the board itself gives one of the 64 squares.\<close>

lemma click_square_on_board:
  assumes "0 \<le> x" "x < BOARD_SIZE" "0 \<le> y" "y < BOARD_SIZE"
  shows "0 \<le> click_square x y \<and> click_square x y < 64"
proof -
  have "0 \<le> x div 80" "x div 80 < 8" "0 \<le> y div 80" "y div 80 < 8"
    using assms by (simp_all add: BOARD_SIZE_def div_less_iff_less_mult pos_imp_zdiv_nonneg_iff)
  then show ?thesis
    by (simp add: click_square_eq)
qed

text \<open>
  C9. The claim: every square computed from a click in the window lies in \<open>0..63\<close>,
  also for a click in the text box below the board. The code at the pixel \<open>(0, 640)\<close>,
  the first pixel row of the text box: the pixel is in the window, the square computed
  is 64, and during the human's turn it is passed to \<open>piece_at\<close> when nothing is
  selected, and made the destination of the candidate move when a square is selected.
\<close>

theorem text_box_click_square:
  "in_window 0 640 \<and> click_square 0 640 = 64 \<and> \<not> (click_square 0 640 < 64) \<and>
   handle_event L (MOUSEBUTTONDOWN 0 640) (s\<lparr>player_turn := True, selected_square := None\<rparr>) =
     (case piece_at L (board s) 64 of
        Inl e \<Rightarrow> Inl e
      | Inr None \<Rightarrow> Inr (s\<lparr>player_turn := True, selected_square := None\<rparr>)
      | Inr (Some p) \<Rightarrow> Inr (s\<lparr>player_turn := True, selected_square := Some 64\<rparr>)) \<and>
   handle_event L (MOUSEBUTTONDOWN 0 640) (s\<lparr>player_turn := True, selected_square := Some sel\<rparr>) =
     attempt_move L sel 64 (s\<lparr>player_turn := True, selected_square := Some sel\<rparr>)"
  by (simp add: click_square_eq in_window_def BOARD_SIZE_def TEXT_BOX_HEIGHT_def select_or_move_def
      split: sum.splits option.splits)

section \<open>Facts about the reference implementation\<close>

lemma ref_rules_simps [simp]:
  "new_board ref_rules = ref_new_board" "piece_at ref_rules = ref_piece_at"
  "turn ref_rules = white_to_move" "legal_moves ref_rules = ref_legal_moves"
  "contains_legal ref_rules = ref_contains_legal" "push ref_rules = ref_push"
  "pop ref_rules = ref_pop" "peek ref_rules = ref_peek" "move_stack ref_rules = played"
  "is_game_over ref_rules = ref_is_game_over" "is_checkmate ref_rules = ref_is_checkmate"
  "is_stalemate ref_rules = ref_is_stalemate" "is_check ref_rules = ref_is_check"
  "fen ref_rules = ref_fen" "from_fen ref_rules = ref_from_fen" "uci ref_rules = ref_uci"
  by (simp_all add: ref_rules_def)

lemma ref_new_board_sel:
  "white_to_move ref_new_board" "played ref_new_board = []" "saved ref_new_board = []"
  "squares ref_new_board = start_squares"
  by (simp_all add: ref_new_board_def)

lemma between_frames_sel [simp]:
  "board (between_frames b r p l m) = b" "running (between_frames b r p l m) = r"
  "selected_square (between_frames b r p l m) = None" "player_turn (between_frames b r p l m) = p"
  "last_move (between_frames b r p l m) = Some l" "show_hint (between_frames b r p l m) = False"
  "text_box (between_frames b r p l m) = Some m"
  by (simp_all add: between_frames_def)

text \<open>The two ways of asking for legal moves agree with the list of legal moves.\<close>

lemma is_legal_iff: "is_legal P c m \<longleftrightarrow> m \<in> set (gen_legal P c)"
  by (auto simp: is_legal_def gen_legal_def)

lemma has_legal_iff: "has_legal P c \<longleftrightarrow> gen_legal P c \<noteq> []"
  by (auto simp: has_legal_def gen_legal_def list_ex_iff filter_empty_conv)

text \<open>The reference implementation has the properties that the theorems assume.\<close>

lemma ref_membership:
  assumes "list_index_ok (from_square m)" "list_index_ok (to_square m)"
    and "ref_piece_at b (from_square m) \<noteq> Inr None"
  shows "membership_contract ref_rules b m"
  using assms
  by (simp add: membership_contract_def ref_contains_legal_def is_legal_iff ref_legal_moves_def)

lemma ref_push_contract: "push_contract ref_rules b m"
  by (auto simp: push_contract_def ref_peek_def dest: arg_cong [where f = played])

lemma ref_pop_contract: "pop_contract ref_rules b m"
  by (simp add: pop_contract_def ref_pop_def ref_fen_def)


lemma start_a7: "ref_piece_at ref_new_board 48 = Inr (Some (Piece PAWN False))"
  by code_simp

lemma start_e2: "ref_piece_at ref_new_board 12 = Inr (Some (Piece PAWN True))"
  by code_simp

section \<open>Selecting a square\<close>

text \<open>
  C2, as stated, fails. In the opening position, with White to move and nothing selected,
  a click on a7 (pixel \<open>(10, 490)\<close>, square 48), which holds a black pawn, makes
  square 48 the selection.
\<close>

theorem select_opponent_piece:
  "handle_event ref_rules (MOUSEBUTTONDOWN 10 490) (initial_game ref_rules) =
     Inr ((initial_game ref_rules)\<lparr>selected_square := Some 48\<rparr>) \<and>
   selected_square (initial_game ref_rules) = None \<and>
   piece_at ref_rules (board (initial_game ref_rules)) 48 = Inr (Some (Piece PAWN False)) \<and>
   color (Piece PAWN False) \<noteq> turn ref_rules (board (initial_game ref_rules))"
  by (simp add: initial_game_def click_square_eq select_or_move_def start_a7 ref_new_board_sel)

text \<open>
  C2, amended. When \<open>select_or_move\<close> returns, the clicked square is the selection
  exactly when no square was selected and the clicked square holds a piece, of either
  colour; otherwise nothing is selected afterwards. So a click on an empty square never
  becomes the selection.
\<close>

theorem select_only_pieces:
  assumes "select_or_move L sq s = Inr s'"
  shows "(selected_square s' = Some sq \<longleftrightarrow>
            selected_square s = None \<and> (\<exists>p. piece_at L (board s) sq = Inr (Some p))) \<and>
         (selected_square s' = None \<or> selected_square s' = Some sq)"
  using assms
  by (auto simp: select_or_move_def attempt_move_def push_and_record_def display_info_def Let_def
      split: option.splits sum.splits bool.splits)

theorem select_only_pieces_witness:
  "select_or_move ref_rules 12 (initial_game ref_rules) =
     Inr ((initial_game ref_rules)\<lparr>selected_square := Some 12\<rparr>) \<and>
   selected_square (initial_game ref_rules) = None \<and>
   (\<exists>p. piece_at ref_rules (board (initial_game ref_rules)) 12 = Inr (Some p))"
proof -
  have run: "select_or_move ref_rules 12 (initial_game ref_rules) =
      Inr ((initial_game ref_rules)\<lparr>selected_square := Some 12\<rparr>)"
    by (simp add: initial_game_def select_or_move_def start_e2)
  from select_only_pieces [OF run] show ?thesis
    using run by simp
qed

section \<open>Games played on the reference implementation\<close>

text \<open>
  The human plays e2-e4 (clicks on e2 and e4), the engine answers f7-f5; then the human
  plays Qd1-h5, which gives check, and the engine answers g7-g6.
\<close>

lemma frame_e4_f5:
  "frame ref_rules (scripted_ai ''medium'' [f7f5, g7g6]) draw_first
     [MOUSEBUTTONDOWN 330 90, MOUSEBUTTONDOWN 330 250] (initial_game ref_rules) =
   Inr (between_frames (after [e2e4, f7f5]) True True ''f7f5'' ''Last move: f7f5'')"
  by code_simp

lemma clicks_d1_h5:
  "handle_events ref_rules [MOUSEBUTTONDOWN 250 10, MOUSEBUTTONDOWN 570 330]
     (between_frames (after [e2e4, f7f5]) True True ''f7f5'' ''Last move: f7f5'') =
   Inr (between_frames (after [e2e4, f7f5, d1h5]) True False ''d1h5'' ''Last move: f7f5'')"
  by code_simp

lemma status_qh5: "status ref_rules (after [e2e4, f7f5, d1h5]) = Check"
  by code_simp

lemma not_over_qh5: "\<not> is_game_over ref_rules (after [e2e4, f7f5, d1h5])"
  by code_simp

lemma reply_g6:
  "advance_opponent_turn ref_rules (scripted_ai ''medium'' [f7f5, g7g6]) draw_first
     (between_frames (after [e2e4, f7f5, d1h5]) True False ''d1h5'' ''Last move: f7f5'') =
   Inr (between_frames (after [e2e4, f7f5, d1h5, g7g6]) True True ''g7g6'' ''Last move: f7f5'')"
  by code_simp

lemma after_g6_neq: "after [e2e4, f7f5, d1h5, g7g6] \<noteq> after [e2e4, f7f5, d1h5]"
  by (simp add: after_def ref_new_board_def)

text \<open>Undo after the first exchange of moves.\<close>

lemma undo_f5:
  "request_undo ref_rules (between_frames (after [e2e4, f7f5]) True True ''f7f5'' ''Last move: f7f5'') =
   Inr (between_frames (after [e2e4]) True True ''f7f5'' ''Last move: f7f5'')"
  by code_simp

lemma pop_f5: "ref_pop (after [e2e4, f7f5]) = Inr (after [e2e4])"
  by code_simp

lemma after_sel:
  "white_to_move (after [e2e4]) = False" "played (after [e2e4]) = [e2e4]"
  "played (after [e2e4, f7f5]) = [e2e4, f7f5]"
  by code_simp+

lemma not_over_e4: "\<not> ref_is_game_over (after [e2e4])"
  by code_simp





lemma mate_no_legal: "\<not> has_legal (squares (after [f2f3, e7e5, g2g4, d8h4])) True"
  by code_simp

lemma mate_white_to_move: "white_to_move (after [f2f3, e7e5, g2g4, d8h4])"
  by code_simp

lemma mate_legal_moves: "ref_legal_moves (after [f2f3, e7e5, g2g4, d8h4]) = []"
  using mate_no_legal by (simp add: has_legal_iff ref_legal_moves_def mate_white_to_move)

text \<open>The opening position.\<close>

lemma start_legal:
  "ref_legal_moves ref_new_board =
    [Move 1 18 None, Move 1 16 None, Move 6 23 None, Move 6 21 None,
     Move 8 16 None, Move 8 24 None, Move 9 17 None, Move 9 25 None,
     Move 10 18 None, Move 10 26 None, Move 11 19 None, Move 11 27 None,
     Move 12 20 None, Move 12 28 None, Move 13 21 None, Move 13 29 None,
     Move 14 22 None, Move 14 30 None, Move 15 23 None, Move 15 31 None]"
  by code_simp

lemma start_e2e4: "is_legal start_squares True (Move 12 28 None)"
  by code_simp

lemma start_e2e4_legal:
  "Move 12 28 None \<in> set (legal_moves ref_rules (board (initial_game ref_rules)))"
  using start_e2e4
  by (simp add: is_legal_iff ref_legal_moves_def initial_game_def ref_new_board_sel)

lemma start_e2e4_membership:
  "membership_contract ref_rules (board (initial_game ref_rules)) (Move 12 28 None)"
  by (rule ref_membership) (simp_all add: list_index_ok_def initial_game_def start_e2)

lemma clicks_e2_e5:
  "handle_events ref_rules [MOUSEBUTTONDOWN 330 90, MOUSEBUTTONDOWN 330 330]
     (initial_game ref_rules) =
   Inr ((initial_game ref_rules)\<lparr>text_box := Some ''Invalid move. Try again.''\<rparr>)"
  by code_simp

lemma frame_e2_e5:
  "frame ref_rules (scripted_ai ''medium'' []) draw_first
     [MOUSEBUTTONDOWN 330 90, MOUSEBUTTONDOWN 330 330] (initial_game ref_rules) =
   Inr ((initial_game ref_rules)\<lparr>text_box := Some ''Last move: None''\<rparr>)"
  by code_simp

text \<open>
  With e2 selected, a click in the text box makes the candidate move e2 to square 64;
  the membership test of the reference implementation raises, as indexing a list of
  64 squares does, and the loop ends.
\<close>

lemma clicks_e2_text_box:
  "handle_events ref_rules [MOUSEBUTTONDOWN 330 90, MOUSEBUTTONDOWN 0 640]
     (initial_game ref_rules) = Inl IndexError"
  by code_simp

text \<open>Records of positions, written and read back.\<close>

lemma fen_start: "ref_fen ref_new_board = ''rnbqkbnr/pppppppp/8/8/8/8/PPPPPPPP/RNBQKBNR w - - 0 1''"
  by code_simp

lemma fen_e4: "ref_fen (after [e2e4]) = ''rnbqkbnr/pppppppp/8/8/4P3/8/PPPP1PPP/RNBQKBNR b - - 0 1''"
  by code_simp

lemma load_e4:
  "ref_from_fen ''rnbqkbnr/pppppppp/8/8/4P3/8/PPPP1PPP/RNBQKBNR b - - 0 1'' =
     Inr \<lparr>squares = squares (after [e2e4]), white_to_move = False, played = [], saved = []\<rparr>"
  by code_simp

lemma fen_loaded_e4:
  "ref_fen \<lparr>squares = squares (after [e2e4]), white_to_move = False, played = [], saved = []\<rparr> =
     ''rnbqkbnr/pppppppp/8/8/4P3/8/PPPP1PPP/RNBQKBNR b - - 0 1''"
  by code_simp

lemma fen_contract_e4: "fen_contract ref_rules (after [e2e4])"
  by (simp add: fen_contract_def fen_e4 load_e4 fen_loaded_e4)

section \<open>Attempting a move\<close>

text \<open>
  What lines 133 to 141 do with a candidate move, for a library whose membership test
  answers on this move and agrees with the list of legal moves, and whose \<open>push\<close> of a
  legal move succeeds: the board changes exactly when the move is legal; a move that
  is not legal leaves board and turn as they were and draws the message; the selection
  is cleared in both cases.
\<close>

lemma attempt_move_iff_legal:
  assumes mem: "membership_contract L (board s) (Move sel sq None)"
    and psh: "Move sel sq None \<in> set (legal_moves L (board s)) \<Longrightarrow>
                push_contract L (board s) (Move sel sq None)"
  shows "\<exists>s'. attempt_move L sel sq s = Inr s' \<and>
           (board s' \<noteq> board s \<longleftrightarrow> Move sel sq None \<in> set (legal_moves L (board s))) \<and>
           (Move sel sq None \<in> set (legal_moves L (board s)) \<longrightarrow>
              push L (board s) (Some (Move sel sq None)) = Inr (board s') \<and> \<not> player_turn s') \<and>
           (Move sel sq None \<notin> set (legal_moves L (board s)) \<longrightarrow>
              board s' = board s \<and> player_turn s' = player_turn s \<and>
              text_box s' = Some ''Invalid move. Try again.'') \<and>
           selected_square s' = None"
proof (cases "Move sel sq None \<in> set (legal_moves L (board s))")
  case True
  with psh obtain b' where b': "push L (board s) (Some (Move sel sq None)) = Inr b'"
    "b' \<noteq> board s" "peek L b' = Inr (Move sel sq None)"
    by (auto simp: push_contract_def split: sum.splits)
  with True mem show ?thesis
    by (simp add: attempt_move_def membership_contract_def push_and_record_def)
next
  case False
  with mem show ?thesis
    by (simp add: attempt_move_def membership_contract_def display_info_def)
qed

lemma text_box_current_status:
  "text_box (current_status L s) \<noteq> Some ''Invalid move. Try again.''"
  by (simp add: current_status_def display_info_def)

text \<open>
  C1. The claim: a candidate move that is not legal is surfaced as a status message,
  without throwing. The code: \<open>display_info\<close> draws the message at line 140, and
  lines 160 to 170 draw another message over it in the same pass of the loop, before
  \<open>pygame.display.flip()\<close> shows the screen. Whatever the events of a frame, the text
  box does not hold the message of line 140 when the frame ends.
\<close>

theorem invalid_move_message_overwritten:
  assumes "frame L ai rnd evs s = Inr s'"
  shows "text_box s' \<noteq> Some ''Invalid move. Try again.''"
proof -
  from assms obtain s2 where s2: "resolve_hint L ai (current_status L s2) = Inr s'"
    by (auto simp: frame_def split: sum.splits)
  then show ?thesis
    using text_box_current_status [of L s2]
    by (auto simp: resolve_hint_def display_info_def split: if_splits sum.splits option.splits)
qed

text \<open>
  In the opening position the human clicks on e2 and then on e5: the move is not legal,
  the event loop draws the message, and the frame ends with \<open>Last move: None\<close> in the
  text box.
\<close>

theorem invalid_move_message_overwritten_witness:
  "handle_events ref_rules [MOUSEBUTTONDOWN 330 90, MOUSEBUTTONDOWN 330 330]
     (initial_game ref_rules) =
     Inr ((initial_game ref_rules)\<lparr>text_box := Some ''Invalid move. Try again.''\<rparr>) \<and>
   frame ref_rules (scripted_ai ''medium'' []) draw_first
     [MOUSEBUTTONDOWN 330 90, MOUSEBUTTONDOWN 330 330] (initial_game ref_rules) =
     Inr ((initial_game ref_rules)\<lparr>text_box := Some ''Last move: None''\<rparr>) \<and>
   text_box ((initial_game ref_rules)\<lparr>text_box := Some ''Last move: None''\<rparr>) \<noteq>
     Some ''Invalid move. Try again.''"
  using invalid_move_message_overwritten [OF frame_e2_e5] clicks_e2_e5 frame_e2_e5
  by simp

section \<open>Undo\<close>

text \<open>
  C3, as stated, fails. After e2-e4 and the engine's f7-f5 it is the human's turn. The
  key U pops f7-f5: on the board Black is to move, and \<open>player_turn\<close> is still \<open>True\<close>.
\<close>

theorem undo_keeps_player_turn:
  "frame ref_rules (scripted_ai ''medium'' [f7f5, g7g6]) draw_first
     [MOUSEBUTTONDOWN 330 90, MOUSEBUTTONDOWN 330 250] (initial_game ref_rules) =
     Inr (between_frames (after [e2e4, f7f5]) True True ''f7f5'' ''Last move: f7f5'') \<and>
   move_stack ref_rules (after [e2e4, f7f5]) = [e2e4, f7f5] \<and>
   handle_event ref_rules (KEYDOWN K_u)
     (between_frames (after [e2e4, f7f5]) True True ''f7f5'' ''Last move: f7f5'') =
     Inr (between_frames (after [e2e4]) True True ''f7f5'' ''Last move: f7f5'') \<and>
   player_turn (between_frames (after [e2e4]) True True ''f7f5'' ''Last move: f7f5'') \<and>
   \<not> turn ref_rules (board (between_frames (after [e2e4]) True True ''f7f5'' ''Last move: f7f5''))"
  by (simp add: frame_e4_f5 undo_f5 after_sel)

text \<open>
  C3, amended. With an empty move stack \<open>request_undo\<close> returns the game as it is. With
  a non-empty stack it calls \<open>pop\<close> once; when that returns, the board is the popped
  board and the turn, the selection and the last-move text are what they were.
\<close>

theorem request_undo_pops_once:
  "(move_stack L (board s) = [] \<longrightarrow> request_undo L s = Inr s) \<and>
   (move_stack L (board s) \<noteq> [] \<longrightarrow>
      request_undo L s = map_sum id (\<lambda>b'. s\<lparr>board := b'\<rparr>) (pop L (board s)) \<and>
      (\<forall>s'. request_undo L s = Inr s' \<longrightarrow>
         pop L (board s) = Inr (board s') \<and> player_turn s' = player_turn s \<and>
         selected_square s' = selected_square s \<and> last_move s' = last_move s))"
  by (auto simp: request_undo_def split: sum.splits)

theorem request_undo_pops_once_witness:
  "move_stack ref_rules (board (initial_game ref_rules)) = [] \<and>
   request_undo ref_rules (initial_game ref_rules) = Inr (initial_game ref_rules) \<and>
   move_stack ref_rules
     (board (between_frames (after [e2e4, f7f5]) True True ''f7f5'' ''Last move: f7f5'')) \<noteq> [] \<and>
   request_undo ref_rules (between_frames (after [e2e4, f7f5]) True True ''f7f5'' ''Last move: f7f5'') =
     Inr (between_frames (after [e2e4]) True True ''f7f5'' ''Last move: f7f5'') \<and>
   pop ref_rules (after [e2e4, f7f5]) = Inr (after [e2e4]) \<and>
   player_turn (between_frames (after [e2e4]) True True ''f7f5'' ''Last move: f7f5'') =
     player_turn (between_frames (after [e2e4, f7f5]) True True ''f7f5'' ''Last move: f7f5'')"
  using request_undo_pops_once [of ref_rules "initial_game ref_rules"]
    request_undo_pops_once [of ref_rules
      "between_frames (after [e2e4, f7f5]) True True ''f7f5'' ''Last move: f7f5''"]
  by (simp add: undo_f5 after_sel pop_f5 initial_game_def ref_new_board_sel)

text \<open>
  C6. For a move \<open>m\<close> from the selected square that is legal on the board, with a
  library whose membership test agrees with the legal moves, whose \<open>push\<close> of \<open>m\<close>
  puts \<open>m\<close> on the move stack and whose \<open>pop\<close> after that push gives back the record:
  \<open>attempt_move\<close> pushes \<open>m\<close>, \<open>request_undo\<close> then pops it, and the record of the
  board is the one before the move.
\<close>

theorem undo_after_move_restores_record:
  assumes legal: "Move sel sq None \<in> set (legal_moves L (board s))"
    and mem: "membership_contract L (board s) (Move sel sq None)"
    and psh: "push_contract L (board s) (Move sel sq None)"
    and pp: "pop_contract L (board s) (Move sel sq None)"
  shows "\<exists>s1 s2. attempt_move L sel sq s = Inr s1 \<and>
           push L (board s) (Some (Move sel sq None)) = Inr (board s1) \<and>
           request_undo L s1 = Inr s2 \<and> pop L (board s1) = Inr (board s2) \<and>
           fen L (board s2) = fen L (board s)"
proof -
  from psh obtain b1 where b1: "push L (board s) (Some (Move sel sq None)) = Inr b1"
    "peek L b1 = Inr (Move sel sq None)"
    "move_stack L b1 = move_stack L (board s) @ [Move sel sq None]"
    by (auto simp: push_contract_def split: sum.splits)
  from pp b1(1) obtain b2 where b2: "pop L b1 = Inr b2" "fen L b2 = fen L (board s)"
    by (auto simp: pop_contract_def split: sum.splits)
  from legal mem b1 have "attempt_move L sel sq s =
      Inr (s\<lparr>board := b1, last_move := Some (uci L (Move sel sq None)), player_turn := False,
             selected_square := None\<rparr>)"
    by (simp add: attempt_move_def membership_contract_def push_and_record_def)
  moreover have "request_undo L
      (s\<lparr>board := b1, last_move := Some (uci L (Move sel sq None)), player_turn := False,
         selected_square := None\<rparr>) =
      Inr (s\<lparr>board := b2, last_move := Some (uci L (Move sel sq None)), player_turn := False,
             selected_square := None\<rparr>)"
    using b1(3) b2(1) by (simp add: request_undo_def)
  ultimately show ?thesis
    using b1(1) b2 by simp
qed

theorem undo_after_move_restores_record_witness:
  "Move 12 28 None \<in> set (legal_moves ref_rules (board (initial_game ref_rules))) \<and>
   (\<exists>s1 s2. attempt_move ref_rules 12 28 (initial_game ref_rules) = Inr s1 \<and>
      push ref_rules (board (initial_game ref_rules)) (Some (Move 12 28 None)) = Inr (board s1) \<and>
      request_undo ref_rules s1 = Inr s2 \<and> pop ref_rules (board s1) = Inr (board s2) \<and>
      fen ref_rules (board s2) = ''rnbqkbnr/pppppppp/8/8/8/8/PPPPPPPP/RNBQKBNR w - - 0 1'')"
  using undo_after_move_restores_record [OF start_e2e4_legal start_e2e4_membership
      ref_push_contract ref_pop_contract] start_e2e4_legal
  by (simp add: initial_game_def fen_start)

section \<open>The opponent's turn\<close>

text \<open>
  C4, as stated, fails. After e2-e4 f7-f5 the human plays Qd1-h5: the status derived
  from the board is \<open>Check\<close>, not \<open>Ongoing\<close>, it is the opponent's turn, and
  \<open>advance_opponent_turn\<close> pushes the engine's g7-g6.
\<close>

theorem opponent_moves_out_of_check:
  "handle_events ref_rules [MOUSEBUTTONDOWN 250 10, MOUSEBUTTONDOWN 570 330]
     (between_frames (after [e2e4, f7f5]) True True ''f7f5'' ''Last move: f7f5'') =
     Inr (between_frames (after [e2e4, f7f5, d1h5]) True False ''d1h5'' ''Last move: f7f5'') \<and>
   status ref_rules (board (between_frames (after [e2e4, f7f5, d1h5]) True False ''d1h5'' ''Last move: f7f5''))
     = Check \<and>
   advance_opponent_turn ref_rules (scripted_ai ''medium'' [f7f5, g7g6]) draw_first
     (between_frames (after [e2e4, f7f5, d1h5]) True False ''d1h5'' ''Last move: f7f5'') =
     Inr (between_frames (after [e2e4, f7f5, d1h5, g7g6]) True True ''g7g6'' ''Last move: f7f5'') \<and>
   board (between_frames (after [e2e4, f7f5, d1h5, g7g6]) True True ''g7g6'' ''Last move: f7f5'') \<noteq>
     board (between_frames (after [e2e4, f7f5, d1h5]) True False ''d1h5'' ''Last move: f7f5'')"
proof (intro conjI)
  show "status ref_rules
      (board (between_frames (after [e2e4, f7f5, d1h5]) True False ''d1h5'' ''Last move: f7f5'')) = Check"
    by (simp add: status_qh5)
  show "board (between_frames (after [e2e4, f7f5, d1h5, g7g6]) True True ''g7g6'' ''Last move: f7f5'') \<noteq>
      board (between_frames (after [e2e4, f7f5, d1h5]) True False ''d1h5'' ''Last move: f7f5'')"
    by (simp add: after_g6_neq)
qed (rule clicks_d1_h5 reply_g6)+

text \<open>
  C4, amended. \<open>advance_opponent_turn\<close> returns the game as it is when it is the
  human's turn or the library reports the game over. Otherwise, when it returns, the
  board is the result of pushing the move that \<open>make_move\<close> gave for the current board,
  with no test of legality, and it is the human's turn. When the library reports a
  checkmate or stalemate as game over, the status of a board on which the opponent
  moves is \<open>Ongoing\<close> or \<open>Check\<close>.
\<close>

theorem advance_opponent_turn_acts:
  "(player_turn s \<or> is_game_over L (board s) \<longrightarrow> advance_opponent_turn L ai rnd s = Inr s) \<and>
   (\<not> player_turn s \<and> \<not> is_game_over L (board s) \<longrightarrow>
      (\<forall>s'. advance_opponent_turn L ai rnd s = Inr s' \<longrightarrow>
         (\<exists>mv. make_move L ai rnd (board s) = Inr mv \<and> push L (board s) mv = Inr (board s')) \<and>
         player_turn s')) \<and>
   (terminal_contract L (board s) \<and> \<not> is_game_over L (board s) \<longrightarrow>
      status L (board s) = Ongoing \<or> status L (board s) = Check)"
  by (auto simp: advance_opponent_turn_def push_and_record_def terminal_contract_def status_def
      split: sum.splits if_splits)

theorem advance_opponent_turn_acts_witness:
  "advance_opponent_turn ref_rules (scripted_ai ''medium'' [f7f5, g7g6]) draw_first
     (between_frames (after [e2e4, f7f5, d1h5]) True False ''d1h5'' ''Last move: f7f5'') =
     Inr (between_frames (after [e2e4, f7f5, d1h5, g7g6]) True True ''g7g6'' ''Last move: f7f5'') \<and>
   \<not> is_game_over ref_rules (after [e2e4, f7f5, d1h5]) \<and>
   (\<exists>mv. make_move ref_rules (scripted_ai ''medium'' [f7f5, g7g6]) draw_first
            (after [e2e4, f7f5, d1h5]) = Inr mv \<and>
          push ref_rules (after [e2e4, f7f5, d1h5]) mv = Inr (after [e2e4, f7f5, d1h5, g7g6]))"
  using advance_opponent_turn_acts [of "between_frames (after [e2e4, f7f5, d1h5]) True False ''d1h5'' ''Last move: f7f5''"
      ref_rules "scripted_ai ''medium'' [f7f5, g7g6]" draw_first] not_over_qh5 reply_g6
  by simp

section \<open>Terminal positions\<close>






section \<open>Saving and loading a game\<close>

text \<open>
  C7. Saving a board writes exactly its record into \<open>saved_game.txt\<close>, and loading
  what was saved is reading that record: for a library that reads the record of \<open>b\<close>
  back to a board with the same record, loading after saving gives a board with the
  record of \<open>b\<close>.
\<close>

theorem save_then_load:
  assumes "fen_contract L b"
  shows "save_game L b fs ''saved_game.txt'' = Some (fen L b) \<and>
         load_game L (save_game L b fs) = from_fen L (fen L b) \<and>
         (\<exists>b'. load_game L (save_game L b fs) = Inr b' \<and> fen L b' = fen L b)"
  using assms
  by (auto simp: save_game_def load_game_def fen_contract_def split: sum.splits)

theorem save_then_load_witness:
  "save_game ref_rules (after [e2e4]) Map.empty ''saved_game.txt'' =
     Some ''rnbqkbnr/pppppppp/8/8/4P3/8/PPPP1PPP/RNBQKBNR b - - 0 1'' \<and>
   load_game ref_rules (save_game ref_rules (after [e2e4]) Map.empty) =
     Inr \<lparr>squares = squares (after [e2e4]), white_to_move = False, played = [], saved = []\<rparr> \<and>
   fen ref_rules \<lparr>squares = squares (after [e2e4]), white_to_move = False, played = [], saved = []\<rparr> =
     fen ref_rules (after [e2e4])"
  using save_then_load [OF fen_contract_e4, of Map.empty]
  by (simp add: fen_e4 load_e4 fen_loaded_e4)

section \<open>Choosing the opponent's move\<close>

text \<open>
  C8. At level \<open>easy\<close>, \<open>make_move\<close> raises \<open>IndexError\<close> when the board has no legal
  move, and otherwise returns the legal move at the index drawn by the generator, a
  member of the legal moves. Over the draws \<open>0, ..., n - 1\<close> for \<open>n\<close> legal moves the
  results are the legal moves, each position of the list once: a uniform draw gives a
  uniform choice.
\<close>

theorem easy_random_legal_move:
  assumes "level ai = ''easy''"
  shows "(legal_moves L b = [] \<longrightarrow> make_move L ai rnd b = Inl IndexError) \<and>
         (rnd (length (legal_moves L b)) < length (legal_moves L b) \<longrightarrow>
            make_move L ai rnd b = Inr (Some (legal_moves L b ! rnd (length (legal_moves L b)))) \<and>
            legal_moves L b ! rnd (length (legal_moves L b)) \<in> set (legal_moves L b)) \<and>
         map (\<lambda>i. make_move L ai (\<lambda>n. i) b) [0..<length (legal_moves L b)] =
           map (\<lambda>m. Inr (Some m)) (legal_moves L b)"
proof -
  have "map (\<lambda>i. make_move L ai (\<lambda>n. i) b) [0..<length (legal_moves L b)] =
      map (\<lambda>i. Inr (Some (legal_moves L b ! i))) [0..<length (legal_moves L b)]"
    using assms by (auto simp: make_move_def ChessAI_random_move_def random_choice_def)
  also have "\<dots> = map (\<lambda>m. Inr (Some m)) (map (\<lambda>i. legal_moves L b ! i) [0..<length (legal_moves L b)])"
    by simp
  also have "\<dots> = map (\<lambda>m. Inr (Some m)) (legal_moves L b)"
    by (simp only: map_nth)
  finally show ?thesis
    using assms by (auto simp: make_move_def ChessAI_random_move_def random_choice_def Let_def)
qed

theorem easy_random_legal_move_witness:
  "level (scripted_ai ''easy'' []) = ''easy'' \<and>
   legal_moves ref_rules (after [f2f3, e7e5, g2g4, d8h4]) = [] \<and>
   make_move ref_rules (scripted_ai ''easy'' []) draw_first (after [f2f3, e7e5, g2g4, d8h4]) =
     Inl IndexError \<and>
   draw_first (length (legal_moves ref_rules ref_new_board)) < length (legal_moves ref_rules ref_new_board) \<and>
   make_move ref_rules (scripted_ai ''easy'' []) draw_first ref_new_board = Inr (Some (Move 1 18 None)) \<and>
   Move 1 18 None \<in> set (legal_moves ref_rules ref_new_board)"
proof -
  have lvl: "level (scripted_ai ''easy'' []) = ''easy''"
    by (simp add: scripted_ai_def)
  from easy_random_legal_move [OF lvl, of ref_rules "after [f2f3, e7e5, g2g4, d8h4]" draw_first]
    easy_random_legal_move [OF lvl, of ref_rules ref_new_board draw_first]
  show ?thesis
    using lvl by (simp add: mate_legal_moves start_legal draw_first_def)
qed

text \<open>
  C10. For a level other than \<open>easy\<close>, \<open>medium\<close> and \<open>hard\<close>, \<open>make_move\<close> returns
  \<open>None\<close>, and when the opponent's turn acts, it is \<open>push\<close> applied to \<open>None\<close>.
\<close>

theorem unknown_level_returns_none:
  assumes "level ai \<notin> {''easy'', ''medium'', ''hard''}"
  shows "make_move L ai rnd b = Inr None \<and>
         (\<not> player_turn s \<and> \<not> is_game_over L (board s) \<longrightarrow>
            advance_opponent_turn L ai rnd s =
              (case push L (board s) None of
                 Inl e \<Rightarrow> Inl e
               | Inr b' \<Rightarrow>
                   (case peek L b' of
                      Inl e \<Rightarrow> Inl e
                    | Inr pm \<Rightarrow>
                        Inr (s\<lparr>board := b', last_move := Some (uci L pm), player_turn := True\<rparr>))))"
  using assms
  by (simp add: make_move_def advance_opponent_turn_def push_and_record_def)

theorem unknown_level_returns_none_witness:
  "level (scripted_ai ''expert'' [e7e5]) \<notin> {''easy'', ''medium'', ''hard''} \<and>
   make_move ref_rules (scripted_ai ''expert'' [e7e5]) draw_first (after [e2e4]) = Inr None \<and>
   \<not> is_game_over ref_rules (after [e2e4]) \<and>
   advance_opponent_turn ref_rules (scripted_ai ''expert'' [e7e5]) draw_first
     (between_frames (after [e2e4]) True False ''e2e4'' ''Last move: None'') = Inl AttributeError"
proof -
  have lvl: "level (scripted_ai ''expert'' [e7e5]) \<notin> {''easy'', ''medium'', ''hard''}"
    by (simp add: scripted_ai_def)
  from unknown_level_returns_none [OF lvl, of ref_rules draw_first "after [e2e4]"
      "between_frames (after [e2e4]) True False ''e2e4'' ''Last move: None''"]
  show ?thesis
    using lvl by (simp add: not_over_e4)
qed

end
